theory Spec2Isabelle
  imports Main
begin

section \<open>An object-storage console: the handlers of MyApp.py\<close>

text \<open>
  The application is a set of Flask route handlers over a boto3 S3 client. The model keeps
  the handlers as they are written and makes everything around them explicit:
  \<^item> a Python \<open>str\<close> is the list of its UTF-8 bytes (\<open>string\<close>); the separators the code
    looks for (\<open>/\<close>, space) are ASCII, so splitting and suffix tests agree with Python's;
  \<^item> an exception is a value of \<open>exc\<close>, and a handler returns \<open>exc + response\<close>: \<open>Inl e\<close> is
    the exception \<open>e\<close> leaving the handler;
  \<^item> the boto3 client is a record of operations over the provider's state \<open>'p\<close>, each
    returning either the exception it raised or its result, with the provider's new state;
  \<^item> the world a handler runs in holds the provider's state, the log of the remote calls
    issued so far, and the notices flashed so far.
\<close>

subsection \<open>Exceptions\<close>

text \<open>
  \<open>NoCredentialsError\<close> and \<open>ClientError\<close> are the two classes every \<open>except\<close> clause of the
  file names; each carries the text \<open>str(e)\<close> gives. \<open>BadRequestKeyError\<close> is what
  \<open>request.form[k]\<close> and \<open>request.files[k]\<close> raise on a missing field, \<open>KeyError\<close> what a
  dict subscript raises, \<open>IndexError\<close> what a list subscript raises. \<open>Other_exception\<close> is
  an exception of any other class.
\<close>

datatype exc =
    NoCredentialsError string
  | ClientError string
  | BadRequestKeyError string
  | KeyError string
  | IndexError
  | Other_exception string

fun str :: "exc \<Rightarrow> string" where
  "str (NoCredentialsError m) = m"
| "str (ClientError m) = m"
| "str (BadRequestKeyError k) = k"
| "str (KeyError k) = k"
| "str IndexError = ''list index out of range''"
| "str (Other_exception m) = m"

text \<open>\<^verbatim>\<open>except (NoCredentialsError, ClientError) as e\<close>: the exceptions the clause catches.\<close>

fun handled :: "exc \<Rightarrow> bool" where
  "handled (NoCredentialsError m) = True"
| "handled (ClientError m) = True"
| "handled e = False"

subsection \<open>Strings\<close>

text \<open>\<^verbatim>\<open>s.endswith(suffix)\<close>\<close>

definition endswith :: "string \<Rightarrow> string \<Rightarrow> bool" where
  "endswith s suffix =
     (length suffix \<le> length s \<and> drop (length s - length suffix) s = suffix)"

text \<open>\<^verbatim>\<open>s.split(sep)\<close> for a separator of one character: the pieces between the separators.\<close>

fun split :: "string \<Rightarrow> char \<Rightarrow> string list" where
  "split [] sep = [[]]"
| "split (c # cs) sep =
     (if c = sep then [] # split cs sep
      else (case split cs sep of
              [] \<Rightarrow> [[c]]
            | piece # pieces \<Rightarrow> (c # piece) # pieces))"

text \<open>\<^verbatim>\<open>xs[-1]\<close>: the last element, IndexError on the empty list.\<close>

definition last_item :: "'a list \<Rightarrow> exc + 'a" where
  "last_item xs = (case xs of [] \<Rightarrow> Inl IndexError | y # ys \<Rightarrow> Inr (last xs))"

text \<open>\<^verbatim>\<open>'{x}'\<close> inside an f-string: the value between apostrophes.\<close>

definition quoted :: "string \<Rightarrow> string" where
  "quoted s = CHR 0x27 # s @ [CHR 0x27]"

subsection \<open>Requests, responses, remote calls\<close>

type_synonym bytes = string

text \<open>An entry of a listing (a bucket or an object) as the provider describes it.\<close>

type_synonym entry = "(string \<times> string) list"

text \<open>A response dict of the provider: \<open>"Buckets"\<close> or \<open>"Contents"\<close> to a list of entries.\<close>

type_synonym reply = "string \<rightharpoonup> entry list"

text \<open>An uploaded file (werkzeug's FileStorage): its name on the client and its content.\<close>

record file_storage =
  filename :: string
  stream :: bytes

text \<open>\<^verbatim>\<open>if file:\<close> A FileStorage is true when its filename is not empty.\<close>

definition truthy :: "file_storage \<Rightarrow> bool" where
  "truthy file = (filename file \<noteq> [])"

record request =
  form :: "string \<rightharpoonup> string"
  files :: "string \<rightharpoonup> file_storage"

text \<open>\<^verbatim>\<open>request.form[k]\<close>, \<^verbatim>\<open>request.files[k]\<close>, \<^verbatim>\<open>d[k]\<close>, \<^verbatim>\<open>d.get(k, default)\<close>\<close>

definition field :: "(string \<rightharpoonup> 'a) \<Rightarrow> string \<Rightarrow> exc + 'a" where
  "field m k = (case m k of None \<Rightarrow> Inl (BadRequestKeyError k) | Some v \<Rightarrow> Inr v)"

definition subscript :: "(string \<rightharpoonup> 'a) \<Rightarrow> string \<Rightarrow> exc + 'a" where
  "subscript d k = (case d k of None \<Rightarrow> Inl (KeyError k) | Some v \<Rightarrow> Inr v)"

definition get :: "(string \<rightharpoonup> 'a) \<Rightarrow> string \<Rightarrow> 'a \<Rightarrow> 'a" where
  "get d k dflt = (case d k of None \<Rightarrow> dflt | Some v \<Rightarrow> v)"

text \<open>\<^verbatim>\<open>url_for("home")\<close> and \<^verbatim>\<open>url_for("list_objects", bucket=b)\<close>\<close>

datatype endpoint = Home_view | List_objects_view string

text \<open>
  What a handler returns: a redirect, one of the two rendered templates with its
  arguments, or \<^verbatim>\<open>send_file(file_obj, as_attachment=..., download_name=...)\<close> with the bytes
  of the file object from position 0.
\<close>

datatype response =
    Redirect endpoint
  | Render_home "entry list option"
  | Render_objects string "entry list" "entry list"
  | Send_file bytes bool string

text \<open>
  The remote calls, with their arguments. \<open>Put_object\<close> carries the \<open>Body\<close> argument,
  \<open>None\<close> when the call passes none.
\<close>

datatype s3_call =
    List_buckets
  | List_objects_v2 string
  | Create_bucket string
  | Delete_bucket string
  | Upload_fileobj file_storage string string
  | Delete_object string string
  | Download_fileobj string string
  | Copy "string \<times> string" string string
  | Put_object string string "bytes option"

text \<open>The content of an object put with the given \<open>Body\<close>: empty when there is none.\<close>

definition body_content :: "bytes option \<Rightarrow> bytes" where
  "body_content body = (case body of None \<Rightarrow> [] | Some b \<Rightarrow> b)"

text \<open>
  The client \<^verbatim>\<open>boto3.client("s3")\<close> returns, over the provider's state \<open>'p\<close>.
  \<open>s3_download_fileobj\<close> returns the bytes it wrote into the file object;
  \<open>s3_copy\<close> takes the \<open>CopySource\<close> as the pair (Bucket, Key).
\<close>

record 'p s3_client =
  s3_list_buckets :: "'p \<Rightarrow> (exc + reply) \<times> 'p"
  s3_list_objects_v2 :: "string \<Rightarrow> 'p \<Rightarrow> (exc + reply) \<times> 'p"
  s3_create_bucket :: "string \<Rightarrow> 'p \<Rightarrow> (exc + unit) \<times> 'p"
  s3_delete_bucket :: "string \<Rightarrow> 'p \<Rightarrow> (exc + unit) \<times> 'p"
  s3_upload_fileobj :: "file_storage \<Rightarrow> string \<Rightarrow> string \<Rightarrow> 'p \<Rightarrow> (exc + unit) \<times> 'p"
  s3_delete_object :: "string \<Rightarrow> string \<Rightarrow> 'p \<Rightarrow> (exc + unit) \<times> 'p"
  s3_download_fileobj :: "string \<Rightarrow> string \<Rightarrow> 'p \<Rightarrow> (exc + bytes) \<times> 'p"
  s3_copy :: "string \<times> string \<Rightarrow> string \<Rightarrow> string \<Rightarrow> 'p \<Rightarrow> (exc + unit) \<times> 'p"
  s3_put_object :: "string \<Rightarrow> string \<Rightarrow> bytes option \<Rightarrow> 'p \<Rightarrow> (exc + unit) \<times> 'p"

record 'p world =
  provider :: 'p
  calls :: "s3_call list"
  flashes :: "string list"

text \<open>\<^verbatim>\<open>flash(msg)\<close>\<close>

definition flash :: "string \<Rightarrow> 'p world \<Rightarrow> 'p world" where
  "flash msg w = w\<lparr>flashes := flashes w @ [msg]\<rparr>"

text \<open>A remote call: the provider answers and moves on, the call is logged.\<close>

definition remote :: "s3_call \<Rightarrow> ('p \<Rightarrow> (exc + 'a) \<times> 'p) \<Rightarrow> 'p world \<Rightarrow> (exc + 'a) \<times> 'p world" where
  "remote c f w =
     (case f (provider w) of
        (r, p') \<Rightarrow> (r, w\<lparr>provider := p', calls := calls w @ [c]\<rparr>))"

subsection \<open>Helpers\<close>

text \<open>
  \<open>get_s3_client\<close>: \<open>mk\<close> is what \<^verbatim>\<open>boto3.client("s3")\<close> does, the client it returns or the
  exception it raises. The \<open>except\<close> clause names NoCredentialsError alone.
\<close>

definition get_s3_client :: "exc + 'p s3_client \<Rightarrow> exc + 'p s3_client option" where
  "get_s3_client mk =
     (case mk of
        Inr client \<Rightarrow> Inr (Some client)
      | Inl (NoCredentialsError m) \<Rightarrow> Inr None
      | Inl e \<Rightarrow> Inl e)"

definition credentials_notice :: string where
  "credentials_notice = '' AWS credentials not found. Please configure them.''"

definition ensure_s3 :: "exc + 'p s3_client \<Rightarrow> 'p world \<Rightarrow> (exc + 'p s3_client option) \<times> 'p world" where
  "ensure_s3 mk w =
     (case get_s3_client mk of
        Inl e \<Rightarrow> (Inl e, w)
      | Inr None \<Rightarrow> (Inr None, flash credentials_notice w)
      | Inr (Some s3) \<Rightarrow> (Inr (Some s3), w))"

subsection \<open>The template filter\<close>

text \<open>
  \<open>urllib.parse.quote_plus\<close> of the standard library with its default arguments, on the
  UTF-8 bytes of the string: \<open>quote\<close> keeps the bytes of \<open>always_safe\<close> and of \<open>safe\<close> and
  writes every other byte as \<open>%XX\<close> in upper-case hexadecimal; \<open>quote_plus\<close> quotes with the
  space kept safe, then replaces each space by \<open>+\<close>.
\<close>

definition always_safe :: "char \<Rightarrow> bool" where
  "always_safe c =
     (c \<in> set (''ABCDEFGHIJKLMNOPQRSTUVWXYZ'' @ ''abcdefghijklmnopqrstuvwxyz'' @
               ''0123456789'' @ ''_.-~''))"

definition hex_digit :: "nat \<Rightarrow> char" where
  "hex_digit n = ''0123456789ABCDEF'' ! (n mod 16)"

definition quote_byte :: "string \<Rightarrow> char \<Rightarrow> string" where
  "quote_byte safe c =
     (if always_safe c \<or> c \<in> set safe then [c]
      else [CHR ''%'', hex_digit (of_char c div 16), hex_digit (of_char c mod 16)])"

definition quote :: "string \<Rightarrow> string \<Rightarrow> string" where
  "quote s safe = concat (map (quote_byte safe) s)"

text \<open>\<^verbatim>\<open>s.replace(old, new)\<close> for strings of one character.\<close>

definition replace :: "string \<Rightarrow> char \<Rightarrow> char \<Rightarrow> string" where
  "replace s old new = map (\<lambda>c. if c = old then new else c) s"

definition quote_plus :: "string \<Rightarrow> string" where
  "quote_plus s =
     (if CHR '' '' \<notin> set s then quote s []
      else replace (quote s '' '') (CHR '' '') (CHR ''+''))"

definition urlencode_filter :: "string \<Rightarrow> string" where
  "urlencode_filter s = quote_plus s"

subsection \<open>Routes\<close>

text \<open>
  Each handler takes \<open>mk\<close> (what constructing the client does), the request where it reads
  one, its path arguments, and the world; it returns the response or the exception that
  leaves it, and the world after it.
\<close>

type_synonym 'p outcome = "(exc + response) \<times> 'p world"

definition home :: "exc + 'p s3_client \<Rightarrow> 'p world \<Rightarrow> 'p outcome" where
  "home mk w =
     (case ensure_s3 mk w of
        (Inl e, w1) \<Rightarrow> (Inl e, w1)
      | (Inr None, w1) \<Rightarrow> (Inr (Render_home None), w1)
      | (Inr (Some s3), w1) \<Rightarrow>
          (case remote List_buckets (s3_list_buckets s3) w1 of
             (Inr d, w2) \<Rightarrow> (Inr (Render_home (Some (get d ''Buckets'' []))), w2)
           | (Inl e, w2) \<Rightarrow>
               if handled e
               then (Inr (Render_home None), flash ('' AWS error: '' @ str e) w2)
               else (Inl e, w2)))"

definition list_objects :: "exc + 'p s3_client \<Rightarrow> string \<Rightarrow> 'p world \<Rightarrow> 'p outcome" where
  "list_objects mk bucket w =
     (case ensure_s3 mk w of
        (Inl e, w1) \<Rightarrow> (Inl e, w1)
      | (Inr None, w1) \<Rightarrow> (Inr (Redirect Home_view), w1)
      | (Inr (Some s3), w1) \<Rightarrow>
          (case remote (List_objects_v2 bucket) (s3_list_objects_v2 s3 bucket) w1 of
             (Inl e, w2) \<Rightarrow>
               if handled e
               then (Inr (Redirect Home_view), flash ('' Error accessing bucket: '' @ str e) w2)
               else (Inl e, w2)
           | (Inr objects, w2) \<Rightarrow>
               let contents = get objects ''Contents'' [] in
               (case remote List_buckets (s3_list_buckets s3) w2 of
                  (Inl e, w3) \<Rightarrow>
                    if handled e
                    then (Inr (Redirect Home_view),
                          flash ('' Error accessing bucket: '' @ str e) w3)
                    else (Inl e, w3)
                | (Inr d, w3) \<Rightarrow>
                    (case subscript d ''Buckets'' of
                       Inl e \<Rightarrow> (Inl e, w3)
                     | Inr buckets \<Rightarrow> (Inr (Render_objects bucket contents buckets), w3)))))"

definition create_bucket :: "exc + 'p s3_client \<Rightarrow> request \<Rightarrow> 'p world \<Rightarrow> 'p outcome" where
  "create_bucket mk req w =
     (case ensure_s3 mk w of
        (Inl e, w1) \<Rightarrow> (Inl e, w1)
      | (Inr None, w1) \<Rightarrow> (Inr (Redirect Home_view), w1)
      | (Inr (Some s3), w1) \<Rightarrow>
          (case field (form req) ''bucket_name'' of
             Inl e \<Rightarrow> (Inl e, w1)
           | Inr bucket_name \<Rightarrow>
               (case remote (Create_bucket bucket_name) (s3_create_bucket s3 bucket_name) w1 of
                  (Inr u, w2) \<Rightarrow>
                    (Inr (Redirect Home_view),
                     flash ('' Bucket '' @ quoted bucket_name @ '' created successfully'') w2)
                | (Inl e, w2) \<Rightarrow>
                    if handled e
                    then (Inr (Redirect Home_view),
                          flash ('' Failed to create bucket: '' @ str e) w2)
                    else (Inl e, w2))))"

definition delete_bucket :: "exc + 'p s3_client \<Rightarrow> string \<Rightarrow> 'p world \<Rightarrow> 'p outcome" where
  "delete_bucket mk bucket w =
     (case ensure_s3 mk w of
        (Inl e, w1) \<Rightarrow> (Inl e, w1)
      | (Inr None, w1) \<Rightarrow> (Inr (Redirect Home_view), w1)
      | (Inr (Some s3), w1) \<Rightarrow>
          (case remote (Delete_bucket bucket) (s3_delete_bucket s3 bucket) w1 of
             (Inr u, w2) \<Rightarrow>
               (Inr (Redirect Home_view),
                flash ('' Bucket '' @ quoted bucket @ '' deleted successfully'') w2)
           | (Inl e, w2) \<Rightarrow>
               if handled e
               then (Inr (Redirect Home_view), flash ('' Failed to delete bucket: '' @ str e) w2)
               else (Inl e, w2)))"

definition upload_file :: "exc + 'p s3_client \<Rightarrow> request \<Rightarrow> string \<Rightarrow> 'p world \<Rightarrow> 'p outcome" where
  "upload_file mk req bucket w =
     (case ensure_s3 mk w of
        (Inl e, w1) \<Rightarrow> (Inl e, w1)
      | (Inr None, w1) \<Rightarrow> (Inr (Redirect Home_view), w1)
      | (Inr (Some s3), w1) \<Rightarrow>
          (case field (files req) ''file'' of
             Inl e \<Rightarrow> (Inl e, w1)
           | Inr file \<Rightarrow>
               if truthy file then
                 (case remote (Upload_fileobj file bucket (filename file))
                         (s3_upload_fileobj s3 file bucket (filename file)) w1 of
                    (Inr u, w2) \<Rightarrow>
                      (Inr (Redirect (List_objects_view bucket)),
                       flash ('' File '' @ quoted (filename file) @ '' uploaded successfully'') w2)
                  | (Inl e, w2) \<Rightarrow>
                      if handled e
                      then (Inr (Redirect (List_objects_view bucket)),
                            flash ('' Upload failed: '' @ str e) w2)
                      else (Inl e, w2))
               else (Inr (Redirect (List_objects_view bucket)), w1)))"

definition delete_file :: "exc + 'p s3_client \<Rightarrow> string \<Rightarrow> string \<Rightarrow> 'p world \<Rightarrow> 'p outcome" where
  "delete_file mk bucket key w =
     (case ensure_s3 mk w of
        (Inl e, w1) \<Rightarrow> (Inl e, w1)
      | (Inr None, w1) \<Rightarrow> (Inr (Redirect Home_view), w1)
      | (Inr (Some s3), w1) \<Rightarrow>
          (case remote (Delete_object bucket key) (s3_delete_object s3 bucket key) w1 of
             (Inr u, w2) \<Rightarrow>
               (Inr (Redirect (List_objects_view bucket)),
                flash ('' File '' @ quoted key @ '' deleted successfully'') w2)
           | (Inl e, w2) \<Rightarrow>
               if handled e
               then (Inr (Redirect (List_objects_view bucket)),
                     flash ('' Delete failed: '' @ str e) w2)
               else (Inl e, w2)))"

definition download_file :: "exc + 'p s3_client \<Rightarrow> string \<Rightarrow> string \<Rightarrow> 'p world \<Rightarrow> 'p outcome" where
  "download_file mk bucket key w =
     (case ensure_s3 mk w of
        (Inl e, w1) \<Rightarrow> (Inl e, w1)
      | (Inr None, w1) \<Rightarrow> (Inr (Redirect Home_view), w1)
      | (Inr (Some s3), w1) \<Rightarrow>
          (case remote (Download_fileobj bucket key) (s3_download_fileobj s3 bucket key) w1 of
             (Inl e, w2) \<Rightarrow>
               if handled e
               then (Inr (Redirect (List_objects_view bucket)),
                     flash ('' Download failed: '' @ str e) w2)
               else (Inl e, w2)
           | (Inr file_obj, w2) \<Rightarrow>
               (case last_item (split key (CHR ''/'')) of
                  Inl e \<Rightarrow> (Inl e, w2)
                | Inr name \<Rightarrow> (Inr (Send_file file_obj True name), w2))))"

definition copy_file :: "exc + 'p s3_client \<Rightarrow> request \<Rightarrow> string \<Rightarrow> string \<Rightarrow> 'p world \<Rightarrow> 'p outcome" where
  "copy_file mk req bucket key w =
     (case ensure_s3 mk w of
        (Inl e, w1) \<Rightarrow> (Inl e, w1)
      | (Inr None, w1) \<Rightarrow> (Inr (Redirect Home_view), w1)
      | (Inr (Some s3), w1) \<Rightarrow>
          (case field (form req) ''dest_bucket'' of
             Inl e \<Rightarrow> (Inl e, w1)
           | Inr dest_bucket \<Rightarrow>
               let dest_key = get (form req) ''dest_key'' key;
                   copy_source = (bucket, key)
               in (case remote (Copy copy_source dest_bucket dest_key)
                           (s3_copy s3 copy_source dest_bucket dest_key) w1 of
                     (Inr u, w2) \<Rightarrow>
                       (Inr (Redirect (List_objects_view bucket)),
                        flash ('' File '' @ quoted key @ '' copied to '' @
                               dest_bucket @ ''/'' @ dest_key) w2)
                   | (Inl e, w2) \<Rightarrow>
                       if handled e
                       then (Inr (Redirect (List_objects_view bucket)),
                             flash ('' Copy failed: '' @ str e) w2)
                       else (Inl e, w2))))"

definition move_file :: "exc + 'p s3_client \<Rightarrow> request \<Rightarrow> string \<Rightarrow> string \<Rightarrow> 'p world \<Rightarrow> 'p outcome" where
  "move_file mk req bucket key w =
     (case ensure_s3 mk w of
        (Inl e, w1) \<Rightarrow> (Inl e, w1)
      | (Inr None, w1) \<Rightarrow> (Inr (Redirect Home_view), w1)
      | (Inr (Some s3), w1) \<Rightarrow>
          (case field (form req) ''dest_bucket'' of
             Inl e \<Rightarrow> (Inl e, w1)
           | Inr dest_bucket \<Rightarrow>
               let dest_key = get (form req) ''dest_key'' key;
                   copy_source = (bucket, key)
               in (case remote (Copy copy_source dest_bucket dest_key)
                           (s3_copy s3 copy_source dest_bucket dest_key) w1 of
                     (Inl e, w2) \<Rightarrow>
                       if handled e
                       then (Inr (Redirect (List_objects_view bucket)),
                             flash ('' Move failed: '' @ str e) w2)
                       else (Inl e, w2)
                   | (Inr u, w2) \<Rightarrow>
                       (case remote (Delete_object bucket key)
                               (s3_delete_object s3 bucket key) w2 of
                          (Inl e, w3) \<Rightarrow>
                            if handled e
                            then (Inr (Redirect (List_objects_view bucket)),
                                  flash ('' Move failed: '' @ str e) w3)
                            else (Inl e, w3)
                        | (Inr u', w3) \<Rightarrow>
                            (Inr (Redirect (List_objects_view bucket)),
                             flash ('' File '' @ quoted key @ '' moved to '' @
                                    dest_bucket @ ''/'' @ dest_key) w3)))))"

definition create_folder :: "exc + 'p s3_client \<Rightarrow> request \<Rightarrow> string \<Rightarrow> 'p world \<Rightarrow> 'p outcome" where
  "create_folder mk req bucket w =
     (case ensure_s3 mk w of
        (Inl e, w1) \<Rightarrow> (Inl e, w1)
      | (Inr None, w1) \<Rightarrow> (Inr (Redirect Home_view), w1)
      | (Inr (Some s3), w1) \<Rightarrow>
          (case field (form req) ''folder_name'' of
             Inl e \<Rightarrow> (Inl e, w1)
           | Inr name \<Rightarrow>
               let folder_name = (if \<not> endswith name ''/'' then name @ ''/'' else name)
               in (case remote (Put_object bucket folder_name None)
                           (s3_put_object s3 bucket folder_name None) w1 of
                     (Inr u, w2) \<Rightarrow>
                       (Inr (Redirect (List_objects_view bucket)),
                        flash ('' Folder '' @ quoted folder_name @ '' created in bucket '' @
                               quoted bucket) w2)
                   | (Inl e, w2) \<Rightarrow>
                       if handled e
                       then (Inr (Redirect (List_objects_view bucket)),
                             flash ('' Failed to create folder: '' @ str e) w2)
                       else (Inl e, w2))))"

text \<open>The routes of the application with their path arguments, and the handler of each.\<close>

datatype route =
    R_home
  | R_list_objects string
  | R_create_bucket
  | R_delete_bucket string
  | R_upload_file string
  | R_delete_file string string
  | R_download_file string string
  | R_copy_file string string
  | R_move_file string string
  | R_create_folder string

fun dispatch :: "exc + 'p s3_client \<Rightarrow> request \<Rightarrow> route \<Rightarrow> 'p world \<Rightarrow> 'p outcome" where
  "dispatch mk req R_home w = home mk w"
| "dispatch mk req (R_list_objects bucket) w = list_objects mk bucket w"
| "dispatch mk req R_create_bucket w = create_bucket mk req w"
| "dispatch mk req (R_delete_bucket bucket) w = delete_bucket mk bucket w"
| "dispatch mk req (R_upload_file bucket) w = upload_file mk req bucket w"
| "dispatch mk req (R_delete_file bucket key) w = delete_file mk bucket key w"
| "dispatch mk req (R_download_file bucket key) w = download_file mk bucket key w"
| "dispatch mk req (R_copy_file bucket key) w = copy_file mk req bucket key w"
| "dispatch mk req (R_move_file bucket key) w = move_file mk req bucket key w"
| "dispatch mk req (R_create_folder bucket) w = create_folder mk req bucket w"

subsection \<open>What quote_plus writes for one byte\<close>

definition quote_plus_byte :: "char \<Rightarrow> string" where
  "quote_plus_byte c = (if c = CHR '' '' then ''+'' else quote_byte [] c)"

subsection \<open>An in-memory provider\<close>

text \<open>
  The storage service is outside the application: the theorems below hold for every
  client. To run the handlers on concrete inputs, \<open>memory_s3\<close> is a client over a store of
  buckets and objects. Its argument names the calls the provider fails and the exception
  of each; a failed call leaves the store as it was.
\<close>

record store =
  buckets :: "string list"
  objects :: "((string \<times> string) \<times> bytes) list"

definition put :: "string \<times> string \<Rightarrow> bytes \<Rightarrow> store \<Rightarrow> (exc + unit) \<times> store" where
  "put k v p =
     (if fst k \<in> set (buckets p)
      then (Inr (), p\<lparr>objects := (k, v) # filter (\<lambda>kv. fst kv \<noteq> k) (objects p)\<rparr>)
      else (Inl (ClientError ''NoSuchBucket''), p))"

definition answer ::
  "(s3_call \<Rightarrow> exc option) \<Rightarrow> s3_call \<Rightarrow> (store \<Rightarrow> (exc + 'a) \<times> store) \<Rightarrow>
     store \<Rightarrow> (exc + 'a) \<times> store" where
  "answer fault c f p = (case fault c of Some e \<Rightarrow> (Inl e, p) | None \<Rightarrow> f p)"

definition memory_s3 :: "(s3_call \<Rightarrow> exc option) \<Rightarrow> store s3_client" where
  "memory_s3 fault =
     \<lparr> s3_list_buckets = answer fault List_buckets
         (\<lambda>p. (Inr [''Buckets'' \<mapsto> map (\<lambda>b. [(''Name'', b)]) (buckets p)], p)),
       s3_list_objects_v2 = (\<lambda>b. answer fault (List_objects_v2 b)
         (\<lambda>p. if b \<notin> set (buckets p) then (Inl (ClientError ''NoSuchBucket''), p)
              else let keys = map (snd \<circ> fst) (filter (\<lambda>kv. fst (fst kv) = b) (objects p))
                   in (Inr (if keys = [] then Map.empty
                            else [''Contents'' \<mapsto> map (\<lambda>k. [(''Key'', k)]) keys]), p))),
       s3_create_bucket = (\<lambda>b. answer fault (Create_bucket b)
         (\<lambda>p. if b \<in> set (buckets p) then (Inl (ClientError ''BucketAlreadyOwnedByYou''), p)
              else (Inr (), p\<lparr>buckets := buckets p @ [b]\<rparr>))),
       s3_delete_bucket = (\<lambda>b. answer fault (Delete_bucket b)
         (\<lambda>p. if b \<notin> set (buckets p) then (Inl (ClientError ''NoSuchBucket''), p)
              else if b \<in> fst ` fst ` set (objects p)
              then (Inl (ClientError ''BucketNotEmpty''), p)
              else (Inr (), p\<lparr>buckets := removeAll b (buckets p)\<rparr>))),
       s3_upload_fileobj = (\<lambda>file b k. answer fault (Upload_fileobj file b k)
         (put (b, k) (stream file))),
       s3_delete_object = (\<lambda>b k. answer fault (Delete_object b k)
         (\<lambda>p. if b \<notin> set (buckets p) then (Inl (ClientError ''NoSuchBucket''), p)
              else (Inr (), p\<lparr>objects := filter (\<lambda>kv. fst kv \<noteq> (b, k)) (objects p)\<rparr>))),
       s3_download_fileobj = (\<lambda>b k. answer fault (Download_fileobj b k)
         (\<lambda>p. case map_of (objects p) (b, k) of
                None \<Rightarrow> (Inl (ClientError ''Not Found''), p)
              | Some v \<Rightarrow> (Inr v, p))),
       s3_copy = (\<lambda>src b k. answer fault (Copy src b k)
         (\<lambda>p. case map_of (objects p) src of
                None \<Rightarrow> (Inl (ClientError ''Not Found''), p)
              | Some v \<Rightarrow> put (b, k) v p)),
       s3_put_object = (\<lambda>b k body. answer fault (Put_object b k body)
         (put (b, k) (body_content body))) \<rparr>"

definition no_fault :: "s3_call \<Rightarrow> exc option" where
  "no_fault c = None"

definition fail_on :: "s3_call \<Rightarrow> exc \<Rightarrow> s3_call \<Rightarrow> exc option" where
  "fail_on failing e c = (if c = failing then Some e else None)"

text \<open>Two buckets, one object; nothing called or flashed yet.\<close>

definition demo_store :: store where
  "demo_store =
     \<lparr>buckets = [''src'', ''dst''], objects = [((''src'', ''a/b/report.csv''), ''id,total'')]\<rparr>"

definition demo_world :: "store world" where
  "demo_world = \<lparr>provider = demo_store, calls = [], flashes = []\<rparr>"

text \<open>A request with the given form fields and no file.\<close>

definition form_request :: "(string \<times> string) list \<Rightarrow> request" where
  "form_request kvs = \<lparr>form = map_of kvs, files = Map.empty\<rparr>"

text \<open>A request with one file in the field \<open>file\<close>.\<close>

definition file_request :: "file_storage \<Rightarrow> request" where
  "file_request f = \<lparr>form = Map.empty, files = [''file'' \<mapsto> f]\<rparr>"

section \<open>Properties\<close>

subsection \<open>Auxiliary facts\<close>

lemma ensure_s3_None:
  assumes "fst (ensure_s3 mk w) = Inr None"
  shows "ensure_s3 mk w = (Inr None, flash credentials_notice w)"
  using assms by (simp add: ensure_s3_def split: sum.splits option.splits)

lemma ensure_s3_client [simp]: "ensure_s3 (Inr s3) w = (Inr (Some s3), w)"
  by (simp add: ensure_s3_def get_s3_client_def)

lemmas memory_s3_simps =
  memory_s3_def answer_def put_def no_fault_def fail_on_def demo_store_def demo_world_def
  form_request_def file_request_def

lemma endswith_slash: "endswith s ''/'' \<longleftrightarrow> s \<noteq> [] \<and> last s = CHR ''/''"
  by (cases s rule: rev_cases) (simp_all add: endswith_def)

lemma split_not_Nil: "split s c \<noteq> []"
  by (induction s) (simp_all split: list.splits)

lemma split_no_sep: "c \<notin> set s \<Longrightarrow> split s c = [s]"
  by (induction s) auto

lemma split_at_sep: "split (pre @ c # rest) c = split pre c @ split rest c"
proof (induction pre)
  case Nil
  show ?case by simp
next
  case (Cons x pre)
  obtain p ps where "split pre c = p # ps"
    using split_not_Nil [of pre c] by (cases "split pre c") auto
  with Cons show ?case by simp
qed

lemma last_split:
  "c \<notin> set (last (split s c)) \<and>
   (\<exists>pre. s = pre @ last (split s c) \<and> (pre = [] \<or> last pre = c))"
proof (cases "c \<in> set s")
  case False
  then show ?thesis by (simp add: split_no_sep)
next
  case True
  then obtain pre rest where s: "s = pre @ c # rest" and rest: "c \<notin> set rest"
    by (auto dest: split_list_last)
  have "last (split s c) = rest"
    by (simp add: s split_at_sep split_no_sep [OF rest])
  moreover have "s = (pre @ [c]) @ rest" by (simp add: s)
  ultimately show ?thesis using rest by (metis last_snoc)
qed

lemma hex_digit_safe: "always_safe (hex_digit n)"
proof -
  have "\<forall>c \<in> set ''0123456789ABCDEF''. always_safe c"
    by (simp add: always_safe_def)
  moreover have "hex_digit n \<in> set ''0123456789ABCDEF''"
    unfolding hex_digit_def by (rule nth_mem) simp
  ultimately show ?thesis by blast
qed

lemma always_safe_plain:
  "always_safe c \<Longrightarrow> c \<noteq> CHR '' '' \<and> c \<noteq> CHR ''+'' \<and> c \<noteq> CHR ''%''"
  by (auto simp add: always_safe_def)

lemma replace_concat:
  "replace (concat (map f s)) a b = concat (map (\<lambda>c. replace (f c) a b) s)"
  by (simp add: replace_def map_concat comp_def)

lemma replace_quote_byte:
  "replace (quote_byte '' '' c) (CHR '' '') (CHR ''+'') = quote_plus_byte c"
  using always_safe_plain [of c]
    always_safe_plain [OF hex_digit_safe [of "of_char c div 16"]]
    always_safe_plain [OF hex_digit_safe [of "of_char c mod 16"]]
  by (auto simp add: quote_byte_def quote_plus_byte_def replace_def)

lemma quote_plus_concat: "quote_plus s = concat (map quote_plus_byte s)"
proof (cases "CHR '' '' \<in> set s")
  case True
  then show ?thesis
    by (simp add: quote_plus_def quote_def replace_concat replace_quote_byte)
next
  case False
  then have eq: "map (quote_byte []) s = map quote_plus_byte s"
    by (intro map_cong) (auto simp add: quote_plus_byte_def)
  show ?thesis
    unfolding quote_plus_def quote_def eq using False by simp
qed

lemma plus_in_quote_plus_byte:
  "CHR ''+'' \<in> set (quote_plus_byte c) \<longleftrightarrow> c = CHR '' ''"
  using always_safe_plain [of c]
    always_safe_plain [OF hex_digit_safe [of "of_char c div 16"]]
    always_safe_plain [OF hex_digit_safe [of "of_char c mod 16"]]
  by (auto simp add: quote_plus_byte_def quote_byte_def)

lemma plus_in_quote_plus:
  "CHR ''+'' \<in> set (quote_plus s) \<longleftrightarrow> CHR '' '' \<in> set s"
  unfolding quote_plus_concat by (auto simp add: plus_in_quote_plus_byte)

subsection \<open>Credentials unavailable\<close>

text \<open>
  C1. When the credential check reports unavailable (\<open>ensure_s3\<close> returns None), every
  route handler issues no remote call and leaves the provider as it was, flashes the fixed
  credentials notice and nothing else, and goes to the home view: \<open>home\<close> renders it
  with no buckets, every other handler redirects to it. The source has ten routes;
  \<open>r\<close> ranges over all of them.
\<close>

theorem unavailable_no_remote_call:
  assumes "fst (ensure_s3 mk w) = Inr None"
  shows "fst (dispatch mk req r w) =
           Inr (if r = R_home then Render_home None else Redirect Home_view) \<and>
         calls (snd (dispatch mk req r w)) = calls w \<and>
         provider (snd (dispatch mk req r w)) = provider w \<and>
         flashes (snd (dispatch mk req r w)) = flashes w @ [credentials_notice]"
  using ensure_s3_None [OF assms]
  by (cases r)
     (simp_all add: home_def list_objects_def create_bucket_def delete_bucket_def
        upload_file_def delete_file_def download_file_def copy_file_def move_file_def
        create_folder_def flash_def)

theorem unavailable_no_remote_call_witness:
  "fst (ensure_s3 (Inl (NoCredentialsError ''Unable to locate credentials'')) demo_world) =
     Inr None \<and>
   fst (dispatch (Inl (NoCredentialsError ''Unable to locate credentials''))
          (form_request [(''dest_bucket'', ''dst'')]) (R_move_file ''src'' ''a/b/report.csv'')
          demo_world) = Inr (Redirect Home_view) \<and>
   calls (snd (dispatch (Inl (NoCredentialsError ''Unable to locate credentials''))
          (form_request [(''dest_bucket'', ''dst'')]) (R_move_file ''src'' ''a/b/report.csv'')
          demo_world)) = [] \<and>
   provider (snd (dispatch (Inl (NoCredentialsError ''Unable to locate credentials''))
          (form_request [(''dest_bucket'', ''dst'')]) (R_move_file ''src'' ''a/b/report.csv'')
          demo_world)) = demo_store \<and>
   flashes (snd (dispatch (Inl (NoCredentialsError ''Unable to locate credentials''))
          (form_request [(''dest_bucket'', ''dst'')]) (R_move_file ''src'' ''a/b/report.csv'')
          demo_world)) = ['' AWS credentials not found. Please configure them.'']"
proof -
  have h: "fst (ensure_s3 (Inl (NoCredentialsError ''Unable to locate credentials''))
             demo_world) = Inr None"
    by (simp add: ensure_s3_def get_s3_client_def)
  show ?thesis
    using h unavailable_no_remote_call [OF h, of "form_request [(''dest_bucket'', ''dst'')]"
        "R_move_file ''src'' ''a/b/report.csv''"]
    by (simp add: demo_world_def credentials_notice_def)
qed

subsection \<open>Move\<close>

text \<open>
  C2, as amended. A move request with a \<open>dest_bucket\<close> field and no \<open>dest_key\<close> field, with
  a client available: the handler copies \<open>(bucket, key)\<close> to \<open>(dest_bucket, key)\<close> and, the
  copy having succeeded, deletes \<open>(bucket, key)\<close>. These are its only remote calls whatever
  the delete answers, so the provider is left as the delete left it: a failed delete is
  followed by no call that would undo the copy. When the delete fails with a
  NoCredentialsError or a ClientError the handler flashes \<open>Move failed\<close> with the error
  text and redirects to the bucket's listing; when it fails with an exception of another
  class, that exception leaves the handler and nothing is flashed.
\<close>

theorem move_file_default_key:
  assumes "form req ''dest_bucket'' = Some dest_bucket"
    and "form req ''dest_key'' = None"
    and "s3_copy s3 (bucket, key) dest_bucket key (provider w) = (Inr u, p1)"
    and "s3_delete_object s3 bucket key p1 = (r, p2)"
  shows "calls (snd (move_file (Inr s3) req bucket key w)) =
           calls w @ [Copy (bucket, key) dest_bucket key, Delete_object bucket key] \<and>
         provider (snd (move_file (Inr s3) req bucket key w)) = p2 \<and>
         (\<forall>e. r = Inl e \<and> handled e \<longrightarrow>
            fst (move_file (Inr s3) req bucket key w) =
              Inr (Redirect (List_objects_view bucket)) \<and>
            flashes (snd (move_file (Inr s3) req bucket key w)) =
              flashes w @ ['' Move failed: '' @ str e]) \<and>
         (\<forall>e. r = Inl e \<and> \<not> handled e \<longrightarrow>
            fst (move_file (Inr s3) req bucket key w) = Inl e \<and>
            flashes (snd (move_file (Inr s3) req bucket key w)) = flashes w)"
  using assms
  by (cases r) (simp_all add: move_file_def field_def get_def remote_def flash_def Let_def)

text \<open>
  The provider refuses the delete with a ClientError: the object is at the destination and
  still at the source, and the failure is flashed.
\<close>

theorem move_file_default_key_witness:
  "form (form_request [(''dest_bucket'', ''dst'')]) ''dest_bucket'' = Some ''dst'' \<and>
   form (form_request [(''dest_bucket'', ''dst'')]) ''dest_key'' = None \<and>
   s3_copy (memory_s3 (fail_on (Delete_object ''src'' ''a/b/report.csv'')
       (ClientError ''AccessDenied''))) (''src'', ''a/b/report.csv'') ''dst'' ''a/b/report.csv''
     (provider demo_world) =
     (Inr (), \<lparr>buckets = [''src'', ''dst''],
               objects = [((''dst'', ''a/b/report.csv''), ''id,total''),
                          ((''src'', ''a/b/report.csv''), ''id,total'')]\<rparr>) \<and>
   move_file (Inr (memory_s3 (fail_on (Delete_object ''src'' ''a/b/report.csv'')
       (ClientError ''AccessDenied'')))) (form_request [(''dest_bucket'', ''dst'')])
     ''src'' ''a/b/report.csv'' demo_world =
     (Inr (Redirect (List_objects_view ''src'')),
      \<lparr>provider = \<lparr>buckets = [''src'', ''dst''],
                    objects = [((''dst'', ''a/b/report.csv''), ''id,total''),
                               ((''src'', ''a/b/report.csv''), ''id,total'')]\<rparr>,
       calls = [Copy (''src'', ''a/b/report.csv'') ''dst'' ''a/b/report.csv'',
                Delete_object ''src'' ''a/b/report.csv''],
       flashes = ['' Move failed: AccessDenied'']\<rparr>)"
proof -
  let ?s3 = "memory_s3 (fail_on (Delete_object ''src'' ''a/b/report.csv'')
               (ClientError ''AccessDenied''))"
  let ?req = "form_request [(''dest_bucket'', ''dst'')]"
  let ?p1 = "\<lparr>buckets = [''src'', ''dst''],
              objects = [((''dst'', ''a/b/report.csv''), ''id,total''),
                         ((''src'', ''a/b/report.csv''), ''id,total'')]\<rparr>"
  have h1: "form ?req ''dest_bucket'' = Some ''dst''"
    by (simp add: form_request_def)
  have h2: "form ?req ''dest_key'' = None"
    by (simp add: form_request_def)
  have h3: "s3_copy ?s3 (''src'', ''a/b/report.csv'') ''dst'' ''a/b/report.csv''
              (provider demo_world) = (Inr (), ?p1)"
    by (simp add: memory_s3_simps)
  have h4: "s3_delete_object ?s3 ''src'' ''a/b/report.csv'' ?p1 =
              (Inl (ClientError ''AccessDenied''), ?p1)"
    by (simp add: memory_s3_simps)
  have "calls (snd (move_file (Inr ?s3) ?req ''src'' ''a/b/report.csv'' demo_world)) =
          calls demo_world @ [Copy (''src'', ''a/b/report.csv'') ''dst'' ''a/b/report.csv'',
                              Delete_object ''src'' ''a/b/report.csv''] \<and>
        provider (snd (move_file (Inr ?s3) ?req ''src'' ''a/b/report.csv'' demo_world)) = ?p1 \<and>
        fst (move_file (Inr ?s3) ?req ''src'' ''a/b/report.csv'' demo_world) =
          Inr (Redirect (List_objects_view ''src'')) \<and>
        flashes (snd (move_file (Inr ?s3) ?req ''src'' ''a/b/report.csv'' demo_world)) =
          flashes demo_world @ ['' Move failed: '' @ str (ClientError ''AccessDenied'')]"
    using move_file_default_key [OF h1 h2 h3 h4] by simp
  then have "move_file (Inr ?s3) ?req ''src'' ''a/b/report.csv'' demo_world =
     (Inr (Redirect (List_objects_view ''src'')),
      \<lparr>provider = ?p1,
       calls = [Copy (''src'', ''a/b/report.csv'') ''dst'' ''a/b/report.csv'',
                Delete_object ''src'' ''a/b/report.csv''],
       flashes = ['' Move failed: AccessDenied'']\<rparr>)"
    by (cases "move_file (Inr ?s3) ?req ''src'' ''a/b/report.csv'' demo_world")
       (auto simp add: demo_world_def)
  with h1 h2 h3 show ?thesis by simp
qed

text \<open>
  C2 as stated fails when the delete raises an exception that is neither a
  NoCredentialsError nor a ClientError (a connection error, say): the copy is in place,
  the exception leaves the handler, and no notice is flashed.
\<close>

theorem move_file_default_key_counterexample:
  "move_file (Inr (memory_s3 (fail_on (Delete_object ''src'' ''a/b/report.csv'')
       (Other_exception ''EndpointConnectionError''))))
     (form_request [(''dest_bucket'', ''dst'')]) ''src'' ''a/b/report.csv'' demo_world =
     (Inl (Other_exception ''EndpointConnectionError''),
      \<lparr>provider = \<lparr>buckets = [''src'', ''dst''],
                    objects = [((''dst'', ''a/b/report.csv''), ''id,total''),
                               ((''src'', ''a/b/report.csv''), ''id,total'')]\<rparr>,
       calls = [Copy (''src'', ''a/b/report.csv'') ''dst'' ''a/b/report.csv'',
                Delete_object ''src'' ''a/b/report.csv''],
       flashes = []\<rparr>)"
  by (simp add: move_file_def field_def get_def remote_def flash_def Let_def memory_s3_simps)

text \<open>
  C10, as amended. A move request with a \<open>dest_bucket\<close> field and a client available, whose
  copy step fails: the copy is the handler's only remote call, the delete of the source is
  never issued, and the provider is left as the failed copy left it. When the copy fails
  with a NoCredentialsError or a ClientError the handler flashes \<open>Move failed\<close> with the
  error text and redirects to the source bucket's listing; when it fails with an exception
  of another class, that exception leaves the handler and nothing is flashed.
\<close>

theorem move_file_copy_fails:
  assumes "form req ''dest_bucket'' = Some dest_bucket"
    and "s3_copy s3 (bucket, key) dest_bucket (get (form req) ''dest_key'' key) (provider w) =
           (Inl e, p1)"
  shows "calls (snd (move_file (Inr s3) req bucket key w)) =
           calls w @ [Copy (bucket, key) dest_bucket (get (form req) ''dest_key'' key)] \<and>
         provider (snd (move_file (Inr s3) req bucket key w)) = p1 \<and>
         (handled e \<longrightarrow>
            fst (move_file (Inr s3) req bucket key w) =
              Inr (Redirect (List_objects_view bucket)) \<and>
            flashes (snd (move_file (Inr s3) req bucket key w)) =
              flashes w @ ['' Move failed: '' @ str e]) \<and>
         (\<not> handled e \<longrightarrow>
            fst (move_file (Inr s3) req bucket key w) = Inl e \<and>
            flashes (snd (move_file (Inr s3) req bucket key w)) = flashes w)"
  using assms
  by (simp add: move_file_def field_def remote_def flash_def Let_def)

text \<open>
  The destination bucket does not exist: the provider answers the copy with a ClientError
  and the store stays as it was.
\<close>

theorem move_file_copy_fails_witness:
  "form (form_request [(''dest_bucket'', ''nowhere'')]) ''dest_bucket'' = Some ''nowhere'' \<and>
   s3_copy (memory_s3 no_fault) (''src'', ''a/b/report.csv'') ''nowhere''
     (get (form (form_request [(''dest_bucket'', ''nowhere'')])) ''dest_key'' ''a/b/report.csv'')
     (provider demo_world) = (Inl (ClientError ''NoSuchBucket''), demo_store) \<and>
   calls (snd (move_file (Inr (memory_s3 no_fault)) (form_request [(''dest_bucket'', ''nowhere'')])
     ''src'' ''a/b/report.csv'' demo_world)) =
     [Copy (''src'', ''a/b/report.csv'') ''nowhere'' ''a/b/report.csv''] \<and>
   provider (snd (move_file (Inr (memory_s3 no_fault))
     (form_request [(''dest_bucket'', ''nowhere'')]) ''src'' ''a/b/report.csv'' demo_world)) =
     demo_store \<and>
   fst (move_file (Inr (memory_s3 no_fault)) (form_request [(''dest_bucket'', ''nowhere'')])
     ''src'' ''a/b/report.csv'' demo_world) = Inr (Redirect (List_objects_view ''src'')) \<and>
   flashes (snd (move_file (Inr (memory_s3 no_fault))
     (form_request [(''dest_bucket'', ''nowhere'')]) ''src'' ''a/b/report.csv'' demo_world)) =
     ['' Move failed: NoSuchBucket'']"
proof -
  let ?req = "form_request [(''dest_bucket'', ''nowhere'')]"
  have h1: "form ?req ''dest_bucket'' = Some ''nowhere''"
    by (simp add: form_request_def)
  have h2: "s3_copy (memory_s3 no_fault) (''src'', ''a/b/report.csv'') ''nowhere''
              (get (form ?req) ''dest_key'' ''a/b/report.csv'') (provider demo_world) =
              (Inl (ClientError ''NoSuchBucket''), demo_store)"
    by (simp add: memory_s3_simps get_def)
  show ?thesis
    using h1 h2 move_file_copy_fails [OF h1 h2]
    by (simp add: get_def form_request_def demo_world_def)
qed

text \<open>
  C10 as stated fails when the copy raises an exception that is neither a
  NoCredentialsError nor a ClientError (the client rejecting a parameter, say): the delete
  is not issued, but the exception leaves the handler, with no notice and no redirect.
\<close>

theorem move_file_copy_fails_counterexample:
  "move_file (Inr (memory_s3 (fail_on (Copy (''src'', ''a/b/report.csv'') ''dst'' ''a/b/report.csv'')
       (Other_exception ''ParamValidationError''))))
     (form_request [(''dest_bucket'', ''dst'')]) ''src'' ''a/b/report.csv'' demo_world =
     (Inl (Other_exception ''ParamValidationError''),
      \<lparr>provider = demo_store,
       calls = [Copy (''src'', ''a/b/report.csv'') ''dst'' ''a/b/report.csv''],
       flashes = []\<rparr>)"
  by (simp add: move_file_def field_def get_def remote_def flash_def Let_def memory_s3_simps)

subsection \<open>Listing objects\<close>

text \<open>
  C3, as amended. A list-objects request with a client available. When either remote call
  (the listing of the bucket, then the listing of the buckets) fails with a
  NoCredentialsError or a ClientError, the handler catches it, flashes
  \<open>Error accessing bucket\<close> with the error text, and redirects to home; a failure of the
  first call leaves the second unissued. When a remote call fails with an exception of
  another class, that exception leaves the handler and nothing is flashed.
\<close>

theorem list_objects_failure:
  "(handled e \<longrightarrow>
      (s3_list_objects_v2 s3 bucket (provider w) = (Inl e, p1) \<longrightarrow>
         list_objects (Inr s3) bucket w =
           (Inr (Redirect Home_view),
            \<lparr>provider = p1, calls = calls w @ [List_objects_v2 bucket],
             flashes = flashes w @ ['' Error accessing bucket: '' @ str e]\<rparr>)) \<and>
      (s3_list_objects_v2 s3 bucket (provider w) = (Inr objs, p1) \<and>
       s3_list_buckets s3 p1 = (Inl e, p2) \<longrightarrow>
         list_objects (Inr s3) bucket w =
           (Inr (Redirect Home_view),
            \<lparr>provider = p2, calls = calls w @ [List_objects_v2 bucket, List_buckets],
             flashes = flashes w @ ['' Error accessing bucket: '' @ str e]\<rparr>))) \<and>
   (\<not> handled e \<longrightarrow>
      (s3_list_objects_v2 s3 bucket (provider w) = (Inl e, p1) \<longrightarrow>
         list_objects (Inr s3) bucket w =
           (Inl e, \<lparr>provider = p1, calls = calls w @ [List_objects_v2 bucket],
                    flashes = flashes w\<rparr>)) \<and>
      (s3_list_objects_v2 s3 bucket (provider w) = (Inr objs, p1) \<and>
       s3_list_buckets s3 p1 = (Inl e, p2) \<longrightarrow>
         list_objects (Inr s3) bucket w =
           (Inl e, \<lparr>provider = p2, calls = calls w @ [List_objects_v2 bucket, List_buckets],
                    flashes = flashes w\<rparr>)))"
  by (simp add: list_objects_def remote_def flash_def Let_def)

text \<open>The bucket does not exist, and the provider says so with a ClientError.\<close>

theorem list_objects_failure_witness:
  "handled (ClientError ''NoSuchBucket'') \<and>
   s3_list_objects_v2 (memory_s3 no_fault) ''missing'' (provider demo_world) =
     (Inl (ClientError ''NoSuchBucket''), demo_store) \<and>
   list_objects (Inr (memory_s3 no_fault)) ''missing'' demo_world =
     (Inr (Redirect Home_view),
      \<lparr>provider = demo_store, calls = [List_objects_v2 ''missing''],
       flashes = ['' Error accessing bucket: NoSuchBucket'']\<rparr>)"
proof -
  have h1: "handled (ClientError ''NoSuchBucket'')"
    by simp
  have h2: "s3_list_objects_v2 (memory_s3 no_fault) ''missing'' (provider demo_world) =
              (Inl (ClientError ''NoSuchBucket''), demo_store)"
    by (simp add: memory_s3_simps)
  show ?thesis
    using h1 h2
      list_objects_failure [of "ClientError ''NoSuchBucket''" "memory_s3 no_fault" "''missing''"
        demo_world demo_store]
    by (simp add: demo_world_def)
qed

text \<open>
  C3 as stated fails when a remote call raises an exception that is neither a
  NoCredentialsError nor a ClientError (a connection error, say): it leaves the handler,
  with no notice and no redirect.
\<close>

theorem list_objects_failure_counterexample:
  "list_objects (Inr (memory_s3 (fail_on (List_objects_v2 ''src'')
       (Other_exception ''EndpointConnectionError'')))) ''src'' demo_world =
     (Inl (Other_exception ''EndpointConnectionError''),
      \<lparr>provider = demo_store, calls = [List_objects_v2 ''src''], flashes = []\<rparr>)"
  by (simp add: list_objects_def remote_def flash_def Let_def memory_s3_simps)

subsection \<open>Creating a folder\<close>

text \<open>
  C4. A create-folder request with a \<open>folder_name\<close> field and a client available: the
  handler's one remote call puts an object with no body, so of empty content, in the
  bucket. Its key is the folder name itself when the name ends in \<open>/\<close>, and the name with
  one \<open>/\<close> appended otherwise; either way the key ends in \<open>/\<close>.
\<close>

theorem create_folder_key:
  assumes "form req ''folder_name'' = Some name"
  shows "(name \<noteq> [] \<and> last name = CHR ''/'' \<longrightarrow>
            calls (snd (create_folder (Inr s3) req bucket w)) =
              calls w @ [Put_object bucket name None] \<and>
            provider (snd (create_folder (Inr s3) req bucket w)) =
              snd (s3_put_object s3 bucket name None (provider w))) \<and>
         (\<not> (name \<noteq> [] \<and> last name = CHR ''/'') \<longrightarrow>
            calls (snd (create_folder (Inr s3) req bucket w)) =
              calls w @ [Put_object bucket (name @ ''/'') None] \<and>
            provider (snd (create_folder (Inr s3) req bucket w)) =
              snd (s3_put_object s3 bucket (name @ ''/'') None (provider w))) \<and>
         (\<exists>key body. last (calls (snd (create_folder (Inr s3) req bucket w))) =
              Put_object bucket key body \<and> endswith key ''/'' \<and> body_content body = [])"
  using assms
  by (auto simp add: create_folder_def field_def remote_def flash_def Let_def endswith_slash
        body_content_def split: prod.splits sum.splits)

text \<open>The folder names \<open>reports\<close> and \<open>reports/\<close> both give the key \<open>reports/\<close>, stored empty.\<close>

theorem create_folder_key_witness:
  "form (form_request [(''folder_name'', ''reports'')]) ''folder_name'' = Some ''reports'' \<and>
   calls (snd (create_folder (Inr (memory_s3 no_fault))
     (form_request [(''folder_name'', ''reports'')]) ''src'' demo_world)) =
     [Put_object ''src'' ''reports/'' None] \<and>
   map_of (objects (provider (snd (create_folder (Inr (memory_s3 no_fault))
     (form_request [(''folder_name'', ''reports'')]) ''src'' demo_world))))
     (''src'', ''reports/'') = Some [] \<and>
   form (form_request [(''folder_name'', ''reports/'')]) ''folder_name'' = Some ''reports/'' \<and>
   calls (snd (create_folder (Inr (memory_s3 no_fault))
     (form_request [(''folder_name'', ''reports/'')]) ''src'' demo_world)) =
     [Put_object ''src'' ''reports/'' None] \<and>
   map_of (objects (provider (snd (create_folder (Inr (memory_s3 no_fault))
     (form_request [(''folder_name'', ''reports/'')]) ''src'' demo_world))))
     (''src'', ''reports/'') = Some []"
proof -
  have h1: "form (form_request [(''folder_name'', ''reports'')]) ''folder_name'' =
              Some ''reports''"
    by (simp add: form_request_def)
  have h2: "form (form_request [(''folder_name'', ''reports/'')]) ''folder_name'' =
              Some ''reports/''"
    by (simp add: form_request_def)
  show ?thesis
    using h1 h2
      create_folder_key [OF h1, of "memory_s3 no_fault" "''src''" demo_world]
      create_folder_key [OF h2, of "memory_s3 no_fault" "''src''" demo_world]
    by (simp add: memory_s3_simps body_content_def)
qed

subsection \<open>Copy\<close>

text \<open>
  C5. A copy request with a \<open>dest_bucket\<close> field and a client available: the handler's one
  remote call copies \<open>(bucket, key)\<close> to \<open>(dest_bucket, dest_key)\<close> when the form has a
  \<open>dest_key\<close> field, and to \<open>(dest_bucket, key)\<close> when it has none. The handler issues no
  other call, so the provider is left as that copy left it and the source object is
  touched by nothing else.
\<close>

theorem copy_file_destination:
  assumes "form req ''dest_bucket'' = Some dest_bucket"
  shows "(form req ''dest_key'' = Some dest_key \<longrightarrow>
            calls (snd (copy_file (Inr s3) req bucket key w)) =
              calls w @ [Copy (bucket, key) dest_bucket dest_key] \<and>
            provider (snd (copy_file (Inr s3) req bucket key w)) =
              snd (s3_copy s3 (bucket, key) dest_bucket dest_key (provider w))) \<and>
         (form req ''dest_key'' = None \<longrightarrow>
            calls (snd (copy_file (Inr s3) req bucket key w)) =
              calls w @ [Copy (bucket, key) dest_bucket key] \<and>
            provider (snd (copy_file (Inr s3) req bucket key w)) =
              snd (s3_copy s3 (bucket, key) dest_bucket key (provider w)))"
  using assms
  by (auto simp add: copy_file_def field_def get_def remote_def flash_def Let_def
        split: prod.splits sum.splits)

text \<open>
  A copy to \<open>dst/copy.csv\<close>: the object is there with the source's content, and the source
  is as it was.
\<close>

theorem copy_file_destination_witness:
  "form (form_request [(''dest_bucket'', ''dst''), (''dest_key'', ''copy.csv'')]) ''dest_bucket'' =
     Some ''dst'' \<and>
   form (form_request [(''dest_bucket'', ''dst''), (''dest_key'', ''copy.csv'')]) ''dest_key'' =
     Some ''copy.csv'' \<and>
   calls (snd (copy_file (Inr (memory_s3 no_fault))
     (form_request [(''dest_bucket'', ''dst''), (''dest_key'', ''copy.csv'')])
     ''src'' ''a/b/report.csv'' demo_world)) =
     [Copy (''src'', ''a/b/report.csv'') ''dst'' ''copy.csv''] \<and>
   provider (snd (copy_file (Inr (memory_s3 no_fault))
     (form_request [(''dest_bucket'', ''dst''), (''dest_key'', ''copy.csv'')])
     ''src'' ''a/b/report.csv'' demo_world)) =
     \<lparr>buckets = [''src'', ''dst''],
      objects = [((''dst'', ''copy.csv''), ''id,total''),
                 ((''src'', ''a/b/report.csv''), ''id,total'')]\<rparr>"
proof -
  let ?req = "form_request [(''dest_bucket'', ''dst''), (''dest_key'', ''copy.csv'')]"
  have h1: "form ?req ''dest_bucket'' = Some ''dst''"
    by (simp add: form_request_def)
  have h2: "form ?req ''dest_key'' = Some ''copy.csv''"
    by (simp add: form_request_def)
  show ?thesis
    using h1 h2
      copy_file_destination [OF h1, of "''copy.csv''" "memory_s3 no_fault" "''src''"
        "''a/b/report.csv''" demo_world]
    by (simp add: memory_s3_simps)
qed

subsection \<open>Download\<close>

text \<open>
  C6. A download request with a client available, whose remote call succeeds: the response
  is an attachment; its bytes are the bytes the client wrote into the file object,
  unchanged; its download name is the last piece of the key split at \<open>/\<close>, that is, the
  suffix of the key that holds no \<open>/\<close> and starts the key or follows a \<open>/\<close>.
\<close>

theorem download_file_attachment:
  assumes "s3_download_fileobj s3 bucket key (provider w) = (Inr content, p1)"
  shows "download_file (Inr s3) bucket key w =
           (Inr (Send_file content True (last (split key (CHR ''/'')))),
            \<lparr>provider = p1, calls = calls w @ [Download_fileobj bucket key],
             flashes = flashes w\<rparr>) \<and>
         CHR ''/'' \<notin> set (last (split key (CHR ''/''))) \<and>
         (\<exists>pre. key = pre @ last (split key (CHR ''/'')) \<and>
                (pre = [] \<or> last pre = CHR ''/''))"
proof -
  have "last_item (split key (CHR ''/'')) = Inr (last (split key (CHR ''/'')))"
    using split_not_Nil [of key "CHR ''/''"]
    by (simp add: last_item_def split: list.splits)
  with assms have "download_file (Inr s3) bucket key w =
           (Inr (Send_file content True (last (split key (CHR ''/'')))),
            \<lparr>provider = p1, calls = calls w @ [Download_fileobj bucket key],
             flashes = flashes w\<rparr>)"
    by (simp add: download_file_def remote_def)
  with last_split [of "CHR ''/''" key] show ?thesis
    by simp
qed

text \<open>The key \<open>a/b/report.csv\<close> is sent as \<open>report.csv\<close>, with the stored content.\<close>

theorem download_file_attachment_witness:
  "s3_download_fileobj (memory_s3 no_fault) ''src'' ''a/b/report.csv'' (provider demo_world) =
     (Inr ''id,total'', demo_store) \<and>
   map_of (objects demo_store) (''src'', ''a/b/report.csv'') = Some ''id,total'' \<and>
   download_file (Inr (memory_s3 no_fault)) ''src'' ''a/b/report.csv'' demo_world =
     (Inr (Send_file ''id,total'' True ''report.csv''),
      \<lparr>provider = demo_store, calls = [Download_fileobj ''src'' ''a/b/report.csv''],
       flashes = []\<rparr>)"
proof -
  have h: "s3_download_fileobj (memory_s3 no_fault) ''src'' ''a/b/report.csv''
             (provider demo_world) = (Inr ''id,total'', demo_store)"
    by (simp add: memory_s3_simps)
  have s: "last (split ''a/b/report.csv'' (CHR ''/'')) = ''report.csv''"
    by simp
  show ?thesis
    using h download_file_attachment [OF h] s
    by (simp add: demo_world_def demo_store_def)
qed

subsection \<open>Upload\<close>

text \<open>
  C9, as amended. An upload request with a client available. When the request carries the
  \<open>file\<close> part and no file was provided in it (its filename is empty), the handler issues
  no remote call, flashes nothing, and redirects to the bucket's listing. When a file was
  provided, the handler's one remote call uploads it to the bucket under the file's own
  filename. When the request carries no \<open>file\<close> part at all, the handler issues no remote
  call either, but \<open>request.files["file"]\<close> raises BadRequestKeyError and that exception
  leaves the handler: there is no redirect.
\<close>

theorem upload_file_no_file:
  "(files req ''file'' = None \<longrightarrow>
      upload_file (Inr s3) req bucket w = (Inl (BadRequestKeyError ''file''), w)) \<and>
   (files req ''file'' = Some file \<and> filename file = [] \<longrightarrow>
      upload_file (Inr s3) req bucket w = (Inr (Redirect (List_objects_view bucket)), w)) \<and>
   (files req ''file'' = Some file \<and> filename file \<noteq> [] \<longrightarrow>
      calls (snd (upload_file (Inr s3) req bucket w)) =
        calls w @ [Upload_fileobj file bucket (filename file)] \<and>
      provider (snd (upload_file (Inr s3) req bucket w)) =
        snd (s3_upload_fileobj s3 file bucket (filename file) (provider w)))"
  by (auto simp add: upload_file_def field_def truthy_def remote_def flash_def Let_def
        split: prod.splits sum.splits)

text \<open>A form sent with no file chosen, and one sent with the file \<open>notes.txt\<close>.\<close>

theorem upload_file_no_file_witness:
  "files (file_request \<lparr>filename = [], stream = []\<rparr>) ''file'' =
     Some \<lparr>filename = [], stream = []\<rparr> \<and>
   upload_file (Inr (memory_s3 no_fault)) (file_request \<lparr>filename = [], stream = []\<rparr>)
     ''src'' demo_world = (Inr (Redirect (List_objects_view ''src'')), demo_world) \<and>
   files (file_request \<lparr>filename = ''notes.txt'', stream = ''hello''\<rparr>) ''file'' =
     Some \<lparr>filename = ''notes.txt'', stream = ''hello''\<rparr> \<and>
   calls (snd (upload_file (Inr (memory_s3 no_fault))
     (file_request \<lparr>filename = ''notes.txt'', stream = ''hello''\<rparr>) ''src'' demo_world)) =
     [Upload_fileobj \<lparr>filename = ''notes.txt'', stream = ''hello''\<rparr> ''src'' ''notes.txt''] \<and>
   map_of (objects (provider (snd (upload_file (Inr (memory_s3 no_fault))
     (file_request \<lparr>filename = ''notes.txt'', stream = ''hello''\<rparr>) ''src'' demo_world))))
     (''src'', ''notes.txt'') = Some ''hello''"
proof -
  have h1: "files (file_request \<lparr>filename = [], stream = []\<rparr>) ''file'' =
              Some \<lparr>filename = [], stream = []\<rparr>"
    by (simp add: file_request_def)
  have h2: "files (file_request \<lparr>filename = ''notes.txt'', stream = ''hello''\<rparr>) ''file'' =
              Some \<lparr>filename = ''notes.txt'', stream = ''hello''\<rparr>"
    by (simp add: file_request_def)
  show ?thesis
    using h1 h2
      upload_file_no_file [of "file_request \<lparr>filename = [], stream = []\<rparr>"
        "memory_s3 no_fault" "''src''" demo_world "\<lparr>filename = [], stream = []\<rparr>"]
      upload_file_no_file [of "file_request \<lparr>filename = ''notes.txt'', stream = ''hello''\<rparr>"
        "memory_s3 no_fault" "''src''" demo_world
        "\<lparr>filename = ''notes.txt'', stream = ''hello''\<rparr>"]
    by (simp add: memory_s3_simps)
qed

text \<open>
  C9 as stated fails on an upload request that has no \<open>file\<close> part: no file is provided,
  no remote call is issued, and the handler does not redirect to the listing, it raises.
\<close>

theorem upload_file_no_file_counterexample:
  "files (form_request []) ''file'' = None \<and>
   upload_file (Inr (memory_s3 no_fault)) (form_request []) ''src'' demo_world =
     (Inl (BadRequestKeyError ''file''), demo_world)"
  by (simp add: upload_file_def field_def form_request_def)

subsection \<open>The credential resolver\<close>

text \<open>
  C8, as amended. \<open>get_s3_client\<close> returns the client when constructing it succeeds, and
  None when the construction raises a NoCredentialsError; an exception of any other class
  raised by the construction is not caught and leaves \<open>get_s3_client\<close>.
\<close>

theorem get_s3_client_boundary:
  "get_s3_client (Inr client) = Inr (Some client) \<and>
   get_s3_client (Inl (NoCredentialsError m)) = Inr None \<and>
   ((\<forall>m. e \<noteq> NoCredentialsError m) \<longrightarrow> get_s3_client (Inl e) = Inl e)"
  by (cases e) (simp_all add: get_s3_client_def)

theorem get_s3_client_boundary_witness:
  "get_s3_client (Inr (memory_s3 no_fault)) = Inr (Some (memory_s3 no_fault)) \<and>
   get_s3_client (Inl (NoCredentialsError ''Unable to locate credentials'')) =
     (Inr None :: exc + store s3_client option) \<and>
   get_s3_client (Inl (ClientError ''AccessDenied'')) =
     (Inl (ClientError ''AccessDenied'') :: exc + store s3_client option)"
  using get_s3_client_boundary [of "memory_s3 no_fault" "''Unable to locate credentials''"
      "ClientError ''AccessDenied''"]
  by simp

text \<open>
  C8 as stated fails when constructing the client raises an exception that is not a
  NoCredentialsError (a configured profile that does not exist, say): the exception
  escapes.
\<close>

theorem get_s3_client_boundary_counterexample:
  "get_s3_client (Inl (Other_exception ''ProfileNotFound'') :: exc + store s3_client) =
     Inl (Other_exception ''ProfileNotFound'')"
  by (simp add: get_s3_client_def)

subsection \<open>The urlencode filter\<close>

text \<open>
  C7. What the filter writes, byte by byte of the key: a space becomes \<open>+\<close>; a letter, a
  digit or one of \<open>_.-~\<close> stays; every other byte becomes \<open>%XX\<close>. So \<open>+\<close> stands in the
  result exactly when the key has a space (a \<open>+\<close> of the key itself is written \<open>%2B\<close>).
  This is the encoding of form data, where \<open>+\<close> reads as a space; in the path of a link
  \<open>+\<close> reads as a plus sign. The key \<open>my reports/q1.csv\<close> is written
  \<open>my+reports%2Fq1.csv\<close>.
\<close>

theorem urlencode_filter_encoding:
  "urlencode_filter key =
     concat (map (\<lambda>c. if c = CHR '' '' then ''+''
                       else if always_safe c then [c]
                       else [CHR ''%'', hex_digit (of_char c div 16),
                             hex_digit (of_char c mod 16)]) key) \<and>
   (CHR ''+'' \<in> set (urlencode_filter key)) = (CHR '' '' \<in> set key) \<and>
   urlencode_filter ''my reports/q1.csv'' = ''my+reports%2Fq1.csv''"
proof -
  have "quote_plus_byte =
          (\<lambda>c. if c = CHR '' '' then ''+''
                else if always_safe c then [c]
                else [CHR ''%'', hex_digit (of_char c div 16), hex_digit (of_char c mod 16)])"
    by (rule ext) (simp add: quote_plus_byte_def quote_byte_def)
  then have "urlencode_filter key =
     concat (map (\<lambda>c. if c = CHR '' '' then ''+''
                       else if always_safe c then [c]
                       else [CHR ''%'', hex_digit (of_char c div 16),
                             hex_digit (of_char c mod 16)]) key)"
    by (simp add: urlencode_filter_def quote_plus_concat)
  moreover have "(CHR ''+'' \<in> set (urlencode_filter key)) = (CHR '' '' \<in> set key)"
    by (simp add: urlencode_filter_def plus_in_quote_plus)
  moreover have "urlencode_filter ''my reports/q1.csv'' = ''my+reports%2Fq1.csv''"
    by code_simp
  ultimately show ?thesis by blast
qed

end
